theory Spec2Isabelle
  imports Complex_Main "HOL-Library.Char_ord" "HOL-Library.List_Lexorder" "HOL-Library.Option_ord"
    "HOL-Library.Product_Lexorder"
begin

section \<open>Failure-streak tracking of \<open>UrlMonitor\<close> (\<open>src/monitor.ts\<close>)\<close>

text \<open>
  \<open>UrlMonitor\<close> keeps two private collections: \<open>failureTracker\<close>, a
  \<open>Map<string, number>\<close> from url to the number of consecutive failures, and
  \<open>notifiedUrls\<close>, a \<open>Set<string>\<close>. The counter only ever holds the results of
  \<open>+ 1\<close> starting at \<open>0\<close>, so it is a natural number here (a JavaScript number
  counts exactly up to \<open>2^53\<close>, which no streak of probes reaches).
\<close>

datatype alert =
  RecoveryAlert string
  | FailureAlert string nat

record tracker =
  failureTracker :: "string \<rightharpoonup> nat"
  notifiedUrls :: "string set"

definition empty_tracker :: tracker where
  "empty_tracker = \<lparr>failureTracker = Map.empty, notifiedUrls = {}\<rparr>"

text \<open>\<open>this.failureTracker.get(urlKey) || 0\<close>: a missing key reads as \<open>0\<close>.\<close>

definition currentFailures :: "tracker \<Rightarrow> string \<Rightarrow> nat" where
  "currentFailures t u = (case failureTracker t u of None \<Rightarrow> 0 | Some n \<Rightarrow> n)"

text \<open>
  Modelled from the spec: \<open>SlackNotifier\<close> (\<open>slack-notifier.ts\<close> is not among the
  sources). Its two operations are best-effort and return without raising, so a call is
  recorded as one emitted \<open>alert\<close> and control continues with the next statement.

  \<open>handleFailureTracking result urlConfig\<close> reads \<open>result.url\<close> and
  \<open>result.success\<close>; it returns the alerts it sent, in order, and the updated
  collections.
\<close>

definition handleFailureTracking :: "string \<Rightarrow> bool \<Rightarrow> tracker \<Rightarrow> alert list \<times> tracker" where
  "handleFailureTracking urlKey success t =
     (if success then
        (if urlKey \<in> notifiedUrls t
         then ([RecoveryAlert urlKey],
               t\<lparr>notifiedUrls := notifiedUrls t - {urlKey},
                  failureTracker := (failureTracker t)(urlKey := None)\<rparr>)
         else ([], t\<lparr>failureTracker := (failureTracker t)(urlKey := None)\<rparr>))
      else
        (let newFailureCount = currentFailures t urlKey + 1;
             t1 = t\<lparr>failureTracker := (failureTracker t)(urlKey \<mapsto> newFailureCount)\<rparr>
         in if newFailureCount \<ge> 3 \<and> urlKey \<notin> notifiedUrls t1
            then ([FailureAlert urlKey newFailureCount],
                  t1\<lparr>notifiedUrls := insert urlKey (notifiedUrls t1)\<rparr>)
            else ([], t1)))"


section \<open>Probes\<close>

text \<open>
  What the HTTP client hands back to a probe: either it rejects with an error, of which
  the probe reads \<open>error.message\<close> (\<open>Inl\<close>; time-out, DNS failure, refused or
  aborted connection), or it resolves with a response, of which the probe reads the status
  code (\<open>Inr\<close>). The clock is read three times: \<open>Date.now()\<close> on entry and after
  the request, and \<open>new Date().toISOString()\<close> for the time stamp. A time stamp is
  represented by the instant it denotes, in milliseconds since the epoch: the fixed-width
  UTC text that \<open>toISOString\<close> prints orders as the instants do.
\<close>

type_synonym http_outcome = "string + nat"

datatype error =
  AlreadyRunning
  | StorageError string
  | InheritedProperty string

text \<open>JavaScript truthiness of an optional string: \<open>undefined\<close>, \<open>null\<close> and \<open>''\<close> are falsy.\<close>

definition truthy :: "string option \<Rightarrow> string option" where
  "truthy x = (case x of None \<Rightarrow> None | Some s \<Rightarrow> if s = [] then None else Some s)"

text \<open>Decimal text of a number inside a template literal.\<close>

definition digit_char :: "nat \<Rightarrow> char" where
  "digit_char d = ''0123456789'' ! d"

fun show_nat :: "nat \<Rightarrow> string" where
  "show_nat n = (if n < 10 then [digit_char n] else show_nat (n div 10) @ [digit_char (n mod 10)])"

subsection \<open>\<open>Monitor.checkURL\<close> (fetch variant)\<close>

record URLConfig =
  cfg_url :: string
  cfg_name :: string
  cfg_countryCode :: "string option"
  cfg_group_name :: "string option"
  cfg_interval :: "nat option"

record RequestResult =
  id_field :: "nat option"
  url :: string
  name :: string
  countryCode :: "string option"
  group_name :: "string option"
  timestamp :: int
  status :: int
  responseTime :: int
  success :: bool
  error :: "string option"

text \<open>\<open>Response.ok\<close> of the Fetch standard: the status is in the range 200 to 299.\<close>

definition response_ok :: "nat \<Rightarrow> bool" where
  "response_ok st \<longleftrightarrow> 200 \<le> st \<and> st \<le> 299"

text \<open>
  The \<open>try\<close> block of \<open>checkURL\<close>: a rejected \<open>fetch\<close> leaves it with the
  error (\<open>Inl\<close>); otherwise it builds the result from the response.
\<close>

definition Monitor_try :: "URLConfig \<Rightarrow> int \<Rightarrow> int \<Rightarrow> int \<Rightarrow> http_outcome \<Rightarrow> string + RequestResult" where
  "Monitor_try config startTime endTime now outcome =
     (case outcome of
        Inl message \<Rightarrow> Inl message
      | Inr st \<Rightarrow>
          (let ok = response_ok st in
           Inr \<lparr>id_field = None, url = cfg_url config, name = cfg_name config,
                countryCode = cfg_countryCode config, group_name = cfg_group_name config,
                timestamp = now, status = int st, responseTime = endTime - startTime,
                success = ok,
                error = (if ok then None else Some (''HTTP '' @ show_nat st))\<rparr>))"

text \<open>The \<open>catch\<close> block: \<open>error.message || 'Request failed'\<close>.\<close>

definition Monitor_catch :: "URLConfig \<Rightarrow> int \<Rightarrow> int \<Rightarrow> int \<Rightarrow> string \<Rightarrow> RequestResult" where
  "Monitor_catch config startTime endTime now message =
     \<lparr>id_field = None, url = cfg_url config, name = cfg_name config,
      countryCode = cfg_countryCode config, group_name = cfg_group_name config,
      timestamp = now, status = 0, responseTime = endTime - startTime,
      success = False,
      error = Some (if message = [] then ''Request failed'' else message)\<rparr>"

definition Monitor_result :: "URLConfig \<Rightarrow> int \<Rightarrow> int \<Rightarrow> int \<Rightarrow> http_outcome \<Rightarrow> RequestResult" where
  "Monitor_result config startTime endTime now outcome =
     (case Monitor_try config startTime endTime now outcome of
        Inr result \<Rightarrow> result
      | Inl message \<Rightarrow> Monitor_catch config startTime endTime now message)"

section \<open>The result store (\<open>src/database.ts\<close>)\<close>

text \<open>
  One row of the table \<open>requests\<close>, with the columns of its \<open>CREATE TABLE\<close>.
  \<open>success\<close> is stored as the integer that \<open>insertResult\<close> binds.
\<close>

record requests_row =
  row_id :: nat
  row_url :: string
  row_name :: string
  row_countryCode :: "string option"
  row_group_name :: "string option"
  row_timestamp :: int
  row_status :: int
  row_responseTime :: int
  row_success :: int
  row_error :: "string option"

text \<open>
  The database: the rows in insertion order, the counter behind
  \<open>INTEGER PRIMARY KEY AUTOINCREMENT\<close>, and the error, if any, with which the driver
  rejects a statement (connection lost, disk full); every operation of the class catches
  it, logs and rethrows.
\<close>

record database =
  rows :: "requests_row list"
  seq :: nat
  fault :: "string option"

definition run_sql :: "database \<Rightarrow> 'a \<Rightarrow> error + 'a" where
  "run_sql db x = (case fault db of Some e \<Rightarrow> Inl (StorageError e) | None \<Rightarrow> Inr x)"

definition insertResult :: "database \<Rightarrow> RequestResult \<Rightarrow> error + database" where
  "insertResult db result =
     run_sql db
       (db\<lparr>rows := rows db @
              [\<lparr>row_id = seq db + 1, row_url = url result, row_name = name result,
                row_countryCode = truthy (countryCode result),
                row_group_name = truthy (group_name result),
                row_timestamp = timestamp result, row_status = status result,
                row_responseTime = responseTime result,
                row_success = (if success result then 1 else 0),
                row_error = truthy (error result)\<rparr>],
           seq := seq db + 1\<rparr>)"

text \<open>
  SQLite's \<open>datetime(timestamp)\<close> renders an instant in whole seconds, dropping the
  milliseconds. The time range of a query is the value of \<open>datetime('now', timeRange)\<close>,
  in seconds since the epoch; it is \<open>NULL\<close> (\<open>None\<close>) when SQLite rejects the
  modifier, and then the comparison selects no row.
\<close>

definition datetime :: "int \<Rightarrow> int" where
  "datetime ts = ts div 1000"

definition in_range :: "int option \<Rightarrow> requests_row \<Rightarrow> bool" where
  "in_range since r = (case since of None \<Rightarrow> False | Some s \<Rightarrow> s \<le> datetime (row_timestamp r))"

text \<open>\<open>group_name = ?\<close>, appended when \<open>groupName\<close> is truthy; \<open>NULL = ?\<close> selects nothing.\<close>

definition group_matches :: "string option \<Rightarrow> requests_row \<Rightarrow> bool" where
  "group_matches groupName r =
     (case truthy groupName of None \<Rightarrow> True | Some g \<Rightarrow> row_group_name r = Some g)"

text \<open>The object \<open>{...row, success: Boolean(row.success)}\<close>.\<close>

definition row_result :: "requests_row \<Rightarrow> RequestResult" where
  "row_result r =
     \<lparr>id_field = Some (row_id r), url = row_url r, name = row_name r,
      countryCode = row_countryCode r, group_name = row_group_name r,
      timestamp = row_timestamp r, status = row_status r,
      responseTime = row_responseTime r, success = (row_success r \<noteq> 0),
      error = row_error r\<rparr>"

text \<open>
  \<open>ORDER BY timestamp DESC\<close>: a stable sort on the negated instant. SQLite leaves the
  order of rows with equal time stamps open; here they keep their insertion order.
\<close>

definition getResults :: "int option \<Rightarrow> string option \<Rightarrow> database \<Rightarrow> error + RequestResult list" where
  "getResults since groupName db =
     run_sql db
       (map row_result
          (sort_key (\<lambda>r. - row_timestamp r)
             (filter (\<lambda>r. in_range since r \<and> group_matches groupName r) (rows db))))"

subsection \<open>\<open>getStats\<close>\<close>

record URLStats =
  st_url :: string
  st_name :: string
  st_group_name :: "string option"
  st_countryCode :: "string option"
  totalRequests :: nat
  successfulRequests :: nat
  failedRequests :: nat
  successRate :: real
  averageResponseTime :: int
  lastChecked :: "int option"
  lastStatus :: "int option"

type_synonym stats_key = "string \<times> string \<times> string option \<times> string option"


text \<open>\<open>Math.round\<close>: the nearest integer, a tie going up.\<close>

definition Math_round :: "real \<Rightarrow> int" where
  "Math_round x = \<lfloor>x + 1 / 2\<rfloor>"

text \<open>\<open>AVG(responseTime)\<close> over the rows of one group (never empty).\<close>

definition sql_avg :: "int list \<Rightarrow> real" where
  "sql_avg xs = of_int (sum_list xs) / of_nat (length xs)"

text \<open>
  The correlated subquery
  \<open>SELECT status FROM requests r2 WHERE r2.url = requests.url ORDER BY timestamp DESC LIMIT 1\<close>,
  over the whole table.
\<close>

definition last_status :: "requests_row list \<Rightarrow> string \<Rightarrow> int option" where
  "last_status table u =
     (case sort_key (\<lambda>r. - row_timestamp r) (filter (\<lambda>r. row_url r = u) table) of
        [] \<Rightarrow> None
      | r # _ \<Rightarrow> Some (row_status r))"

text \<open>One output row: the aggregates of a group, then the arithmetic done in \<open>rows.map\<close>.\<close>

definition stats_of_group :: "requests_row list \<Rightarrow> stats_key \<Rightarrow> requests_row list \<Rightarrow> URLStats" where
  "stats_of_group table k grp =
     (let total = length grp;
          successful = length (filter (\<lambda>r. row_success r = 1) grp);
          failed = length (filter (\<lambda>r. row_success r = 0) grp);
          average = sql_avg (map row_responseTime grp)
      in \<lparr>st_url = fst k, st_name = fst (snd k), st_group_name = fst (snd (snd k)),
          st_countryCode = snd (snd (snd k)),
          totalRequests = total, successfulRequests = successful, failedRequests = failed,
          successRate = (if total > 0 then of_nat successful / of_nat total * 100 else 0),
          averageResponseTime = Math_round average,
          lastChecked =
            (case grp of [] \<Rightarrow> None
             | r # rs \<Rightarrow> Some (fold max (map row_timestamp rs) (row_timestamp r))),
          lastStatus = last_status table (fst k)\<rparr>)"


text \<open>The grouping columns of an output row.\<close>

definition stat_key :: "URLStats \<Rightarrow> stats_key" where
  "stat_key s = (st_url s, st_name s, st_group_name s, st_countryCode s)"

subsection \<open>\<open>cleanup\<close>\<close>

text \<open>
  \<open>DELETE FROM requests WHERE datetime(timestamp) < datetime("now", "-" || ? || " days")\<close>,
  with \<open>now\<close> the instant of the statement in milliseconds; the result is
  \<open>result.changes || 0\<close> together with the table left behind.
\<close>

definition cleanup_cutoff :: "int \<Rightarrow> nat \<Rightarrow> int" where
  "cleanup_cutoff now olderThanDays = datetime (now - int olderThanDays * 86400000)"

definition cleanup :: "int \<Rightarrow> nat \<Rightarrow> database \<Rightarrow> error + nat \<times> database" where
  "cleanup now olderThanDays db =
     run_sql db
       (let doomed = (\<lambda>r. datetime (row_timestamp r) < cleanup_cutoff now olderThanDays)
        in (length (filter doomed (rows db)),
            db\<lparr>rows := filter (\<lambda>r. \<not> doomed r) (rows db)\<rparr>))"

subsection \<open>\<open>getGroupHierarchy\<close>\<close>

record hierarchy_url =
  h_url :: string
  h_name :: string

record GroupHierarchy =
  gh_group_name :: string
  gh_countryCode :: "string option"
  gh_urls :: "hierarchy_url list"








subsection \<open>\<open>getGroupHierarchy\<close>, the variant with \<open>COALESCE\<close>\<close>








text \<open>
  \<open>Object.keys\<close> lists the own properties whose names are array indices first, in
  ascending numeric order, and the other names after them in insertion order.
\<close>

definition index_value :: "string \<Rightarrow> nat" where
  "index_value s = foldl (\<lambda>a ch. 10 * a + (of_char ch - 48)) 0 s"

definition is_array_index :: "string \<Rightarrow> bool" where
  "is_array_index s \<longleftrightarrow>
     s \<noteq> [] \<and> list_all (\<lambda>ch. ch \<in> set ''0123456789'') s
     \<and> (length s = 1 \<or> take 1 s \<noteq> ''0'') \<and> index_value s < 4294967295"

definition Object_entries :: "(string \<times> 'v) list \<Rightarrow> (string \<times> 'v) list" where
  "Object_entries obj =
     sort_key (\<lambda>p. index_value (fst p)) (filter (\<lambda>p. is_array_index (fst p)) obj)
     @ filter (\<lambda>p. \<not> is_array_index (fst p)) obj"



section \<open>The scheduler \<open>Monitor\<close> (fetch variant of \<open>src/monitor.ts\<close>)\<close>

text \<open>
  \<open>checkURL\<close>: the result of the \<open>try\<close>/\<open>catch\<close>, then
  \<open>await this.database.insertResult(result)\<close>, whose error is the only one that
  leaves the method.
\<close>

definition Monitor_checkURL ::
  "URLConfig \<Rightarrow> int \<Rightarrow> int \<Rightarrow> int \<Rightarrow> http_outcome \<Rightarrow> database \<Rightarrow> error + database" where
  "Monitor_checkURL config startTime endTime now outcome db =
     insertResult db (Monitor_result config startTime endTime now outcome)"

text \<open>
  The fields of a \<open>Monitor\<close> and the part of the runtime it acts on: the interval
  timers that are armed (handle, target, period in milliseconds), the next handle that
  \<open>setInterval\<close> gives out, and the probes launched so far (\<open>checkURL\<close> is called
  without \<open>await\<close>).
\<close>

record Monitor_state =
  isRunning :: bool
  intervals :: "string \<rightharpoonup> nat"
  armed :: "(nat \<times> URLConfig \<times> nat) list"
  next_handle :: nat
  launched :: "URLConfig list"

definition new_Monitor :: Monitor_state where
  "new_Monitor = \<lparr>isRunning = False, intervals = Map.empty, armed = [], next_handle = 0, launched = []\<rparr>"

text \<open>\<open>config.interval || 60000\<close>: an absent or zero interval reads as one minute.\<close>

definition interval_or_default :: "nat option \<Rightarrow> nat" where
  "interval_or_default i = (case i of None \<Rightarrow> 60000 | Some n \<Rightarrow> if n = 0 then 60000 else n)"

definition scheduleURL :: "URLConfig \<Rightarrow> Monitor_state \<Rightarrow> Monitor_state" where
  "scheduleURL config m =
     (let interval = interval_or_default (cfg_interval config);
          intervalId = next_handle m
      in m\<lparr>launched := launched m @ [config],
            armed := armed m @ [(intervalId, config, interval)],
            next_handle := intervalId + 1,
            intervals := (intervals m)(cfg_url config \<mapsto> intervalId)\<rparr>)"

definition Monitor_start :: "URLConfig list \<Rightarrow> Monitor_state \<Rightarrow> (error + unit) \<times> Monitor_state" where
  "Monitor_start urls m =
     (if isRunning m then (Inl AlreadyRunning, m)
      else (Inr (), fold scheduleURL urls (m\<lparr>isRunning := True\<rparr>)))"

section \<open>The scheduler \<open>UrlMonitor\<close> (axios variant of \<open>src/monitor.ts\<close>)\<close>

record UrlConfig =
  uc_url :: string
  uc_name :: string
  uc_interval :: nat
  uc_countryCode :: "string option"
  uc_group :: "string option"

record MonitoringConfig =
  urls :: "UrlConfig list"
  defaultInterval :: nat
  retryAttempts :: nat
  timeout :: nat

record UrlRequestResult =
  u_id :: "nat option"
  u_url :: string
  u_name :: string
  u_group :: "string option"
  u_timestamp :: int
  u_status :: int
  u_responseTime :: int
  u_success :: bool
  u_error :: "string option"

text \<open>
  The \<open>try\<close> block of \<open>checkUrl\<close>. With \<open>validateStatus: () => true\<close> every
  received response resolves; the object literal has no \<open>error\<close> property.
\<close>

definition UrlMonitor_try :: "UrlConfig \<Rightarrow> int \<Rightarrow> int \<Rightarrow> int \<Rightarrow> http_outcome \<Rightarrow> string + UrlRequestResult" where
  "UrlMonitor_try urlConfig startTime endTime now outcome =
     (case outcome of
        Inl message \<Rightarrow> Inl message
      | Inr st \<Rightarrow>
          Inr \<lparr>u_id = None, u_url = uc_url urlConfig, u_name = uc_name urlConfig,
               u_group = uc_group urlConfig, u_timestamp = now, u_status = int st,
               u_responseTime = endTime - startTime,
               u_success = (st \<ge> 200 \<and> st < 400), u_error = None\<rparr>)"

definition UrlMonitor_catch :: "UrlConfig \<Rightarrow> int \<Rightarrow> int \<Rightarrow> int \<Rightarrow> string \<Rightarrow> UrlRequestResult" where
  "UrlMonitor_catch urlConfig startTime endTime now message =
     \<lparr>u_id = None, u_url = uc_url urlConfig, u_name = uc_name urlConfig,
      u_group = uc_group urlConfig, u_timestamp = now, u_status = 0,
      u_responseTime = endTime - startTime, u_success = False, u_error = Some message\<rparr>"

definition UrlMonitor_result :: "UrlConfig \<Rightarrow> int \<Rightarrow> int \<Rightarrow> int \<Rightarrow> http_outcome \<Rightarrow> UrlRequestResult" where
  "UrlMonitor_result urlConfig startTime endTime now outcome =
     (case UrlMonitor_try urlConfig startTime endTime now outcome of
        Inr result \<Rightarrow> result
      | Inl message \<Rightarrow> UrlMonitor_catch urlConfig startTime endTime now message)"

text \<open>
  The store this variant writes to: \<open>saveResult\<close> inserts the columns url, name,
  group_name, timestamp, status, responseTime, success and error, which are the fields of
  the result; a saved row is kept as the result with its generated id.
\<close>

record monitoring_db =
  saved :: "UrlRequestResult list"
  saved_seq :: nat
  save_fault :: "string option"

definition saveResult :: "monitoring_db \<Rightarrow> UrlRequestResult \<Rightarrow> error + monitoring_db" where
  "saveResult db result =
     (case save_fault db of
        Some e \<Rightarrow> Inl (StorageError e)
      | None \<Rightarrow> Inr (db\<lparr>saved := saved db @ [result\<lparr>u_id := Some (saved_seq db + 1)\<rparr>],
                        saved_seq := saved_seq db + 1\<rparr>))"

record UrlMonitor_state =
  um_database :: monitoring_db
  um_tracker :: tracker
  um_alerts :: "alert list"
  um_intervals :: "string \<rightharpoonup> nat"
  um_armed :: "(nat \<times> nat) list"
  um_next_handle :: nat
  um_launched :: "UrlConfig list"

definition new_UrlMonitor :: UrlMonitor_state where
  "new_UrlMonitor =
     \<lparr>um_database = \<lparr>saved = [], saved_seq = 0, save_fault = None\<rparr>,
      um_tracker = empty_tracker, um_alerts = [], um_intervals = Map.empty,
      um_armed = [], um_next_handle = 0, um_launched = []\<rparr>"

text \<open>
  \<open>checkUrl\<close>: build the result, save it (an error of the store is logged and
  dropped), update the failure streak, return the result.
\<close>

definition UrlMonitor_checkUrl ::
  "UrlConfig \<Rightarrow> int \<Rightarrow> int \<Rightarrow> int \<Rightarrow> http_outcome \<Rightarrow> UrlMonitor_state \<Rightarrow> UrlRequestResult \<times> UrlMonitor_state" where
  "UrlMonitor_checkUrl urlConfig startTime endTime now outcome m =
     (let result = UrlMonitor_result urlConfig startTime endTime now outcome;
          db1 = (case saveResult (um_database m) result of
                   Inl e \<Rightarrow> um_database m
                 | Inr db' \<Rightarrow> db');
          (sent, t1) = handleFailureTracking (u_url result) (u_success result) (um_tracker m)
      in (result, m\<lparr>um_database := db1, um_tracker := t1, um_alerts := um_alerts m @ sent\<rparr>))"

text \<open>
  \<open>startMonitoring\<close>: launch a probe of every target, arm one shared interval timer
  of period \<open>defaultInterval\<close>, and file its handle under the key \<open>'main'\<close>.
\<close>

definition startMonitoring :: "MonitoringConfig \<Rightarrow> UrlMonitor_state \<Rightarrow> UrlMonitor_state" where
  "startMonitoring config m =
     (let intervalId = um_next_handle m
      in m\<lparr>um_launched := um_launched m @ urls config,
            um_armed := um_armed m @ [(intervalId, defaultInterval config)],
            um_next_handle := intervalId + 1,
            um_intervals := (um_intervals m)(''main'' \<mapsto> intervalId)\<rparr>)"

section \<open>Example data\<close>

text \<open>
  A synthetic data set for one target: ten results, seven of them successes, with known
  response times (their sum is 9705), and one result of a second target.
\<close>

definition synthetic_row :: "nat \<Rightarrow> int \<Rightarrow> int \<Rightarrow> bool \<Rightarrow> requests_row" where
  "synthetic_row i ts rt ok =
     \<lparr>row_id = i, row_url = ''https://github.com'', row_name = ''GitHub'',
      row_countryCode = None, row_group_name = None, row_timestamp = ts,
      row_status = (if ok then 200 else 500), row_responseTime = rt,
      row_success = (if ok then 1 else 0),
      row_error = (if ok then None else Some ''HTTP 500'')\<rparr>"

definition synthetic_db :: database where
  "synthetic_db =
     \<lparr>rows =
        [synthetic_row 1 60000 120 True, synthetic_row 2 120000 80 True,
         synthetic_row 3 180000 3000 False, synthetic_row 4 240000 100 True,
         synthetic_row 5 300000 95 True, synthetic_row 6 360000 3000 False,
         \<lparr>row_id = 7, row_url = ''https://httpbin.org/status/200'', row_name = ''HTTPBin Success'',
          row_countryCode = Some ''US'', row_group_name = Some ''Tools'', row_timestamp = 390000,
          row_status = 200, row_responseTime = 40, row_success = 1, row_error = None\<rparr>,
         synthetic_row 8 420000 105 True, synthetic_row 9 480000 3000 False,
         synthetic_row 10 540000 110 True, synthetic_row 11 600000 95 True],
      seq = 11, fault = None\<rparr>"

definition empty_db :: database where
  "empty_db = \<lparr>rows = [], seq = 0, fault = None\<rparr>"

section \<open>The invariant of the failure tracking\<close>


section \<open>Auxiliary notions of the proofs about the group hierarchy\<close>


definition bump_urls :: "string \<Rightarrow> string \<Rightarrow> string \<Rightarrow> string \<times> GroupHierarchy \<Rightarrow> string \<times> GroupHierarchy" where
  "bump_urls key u n p =
     (if fst p = key \<and> u \<notin> set (map h_url (gh_urls (snd p)))
      then (fst p, (snd p)\<lparr>gh_urls := gh_urls (snd p) @ [\<lparr>h_url = u, h_name = n\<rparr>]\<rparr>)
      else p)"




section \<open>Properties of the failure-streak tracking\<close>









section \<open>Properties of the probes\<close>

lemma Monitor_result_response:
  "Monitor_result config startTime endTime now (Inr st) =
     \<lparr>id_field = None, url = cfg_url config, name = cfg_name config,
      countryCode = cfg_countryCode config, group_name = cfg_group_name config,
      timestamp = now, status = int st, responseTime = endTime - startTime,
      success = response_ok st,
      error = (if response_ok st then None else Some (''HTTP '' @ show_nat st))\<rparr>"
  by (simp add: Monitor_result_def Monitor_try_def Let_def)

lemma Monitor_result_thrown:
  "Monitor_result config startTime endTime now (Inl message) =
     Monitor_catch config startTime endTime now message"
  by (simp add: Monitor_result_def Monitor_try_def)

lemma UrlMonitor_result_response:
  "UrlMonitor_result urlConfig startTime endTime now (Inr st) =
     \<lparr>u_id = None, u_url = uc_url urlConfig, u_name = uc_name urlConfig,
      u_group = uc_group urlConfig, u_timestamp = now, u_status = int st,
      u_responseTime = endTime - startTime,
      u_success = (st \<ge> 200 \<and> st < 400), u_error = None\<rparr>"
  by (simp add: UrlMonitor_result_def UrlMonitor_try_def)

lemma UrlMonitor_result_thrown:
  "UrlMonitor_result urlConfig startTime endTime now (Inl message) =
     UrlMonitor_catch urlConfig startTime endTime now message"
  by (simp add: UrlMonitor_result_def UrlMonitor_try_def)

lemma fst_UrlMonitor_checkUrl:
  "fst (UrlMonitor_checkUrl urlConfig startTime endTime now outcome m) =
     UrlMonitor_result urlConfig startTime endTime now outcome"
  by (simp add: UrlMonitor_checkUrl_def Let_def split_beta)

text \<open>
  C2 (amended). For every probe of \<open>UrlMonitor.checkUrl\<close> that receives a response,
  the success flag is true if and only if the status code is in [200,400): 404 gives
  false and 301 gives true. For every probe of \<open>Monitor.checkURL\<close> that receives a
  response, the success flag is \<open>response.ok\<close>: true if and only if the status code
  is in [200,300).
\<close>

theorem success_rule_by_variant:
  "(u_success (fst (UrlMonitor_checkUrl urlConfig startTime endTime now (Inr st) m))
      \<longleftrightarrow> 200 \<le> st \<and> st < 400)
   \<and> u_success (fst (UrlMonitor_checkUrl urlConfig startTime endTime now (Inr 404) m)) = False
   \<and> u_success (fst (UrlMonitor_checkUrl urlConfig startTime endTime now (Inr 301) m)) = True
   \<and> (success (Monitor_result config startTime endTime now (Inr st))
      \<longleftrightarrow> 200 \<le> st \<and> st < 300)
   \<and> success (Monitor_result config startTime endTime now (Inr 404)) = False
   \<and> success (Monitor_result config startTime endTime now (Inr 200)) = True"
  by (auto simp add: fst_UrlMonitor_checkUrl UrlMonitor_result_response Monitor_result_response
      response_ok_def)

text \<open>
  The claim as stated fails for \<open>Monitor.checkURL\<close>: a response with status 301 is
  recorded with success = false.
\<close>

theorem success_rule_counterexample:
  "success (Monitor_result
     \<lparr>cfg_url = ''https://github.com'', cfg_name = ''GitHub'', cfg_countryCode = None,
      cfg_group_name = None, cfg_interval = Some 120000\<rparr> 1000 1250 1250 (Inr 301)) = False"
  by (simp add: Monitor_result_response response_ok_def)

lemma insertResult_ok:
  "fault db = None \<Longrightarrow>
   insertResult db result =
     Inr (db\<lparr>rows := rows db @
              [\<lparr>row_id = seq db + 1, row_url = url result, row_name = name result,
                row_countryCode = truthy (countryCode result),
                row_group_name = truthy (group_name result),
                row_timestamp = timestamp result, row_status = status result,
                row_responseTime = responseTime result,
                row_success = (if success result then 1 else 0),
                row_error = truthy (error result)\<rparr>],
           seq := seq db + 1\<rparr>)"
  by (simp add: insertResult_def run_sql_def)

lemma insertResult_error:
  "insertResult db result = Inl e \<longleftrightarrow> (\<exists>s. fault db = Some s \<and> e = StorageError s)"
  by (auto simp add: insertResult_def run_sql_def split: option.splits)

text \<open>
  C6. For every probe whose request fails at the transport level, the error leaves the
  \<open>try\<close> block and is caught: the result has status 0, success = false and an error
  field with the text of the error (\<open>Monitor.checkURL\<close> puts \<open>'Request failed'\<close>
  in the place of an empty text). The result is recorded in the store, and the only error
  that can leave \<open>Monitor.checkURL\<close> is one of the store; \<open>UrlMonitor.checkUrl\<close>
  returns the result.
\<close>

theorem transport_failure_recorded:
  "Monitor_try config startTime endTime now (Inl message) = Inl message
   \<and> status (Monitor_result config startTime endTime now (Inl message)) = 0
   \<and> success (Monitor_result config startTime endTime now (Inl message)) = False
   \<and> error (Monitor_result config startTime endTime now (Inl message)) =
       Some (if message = [] then ''Request failed'' else message)
   \<and> (message \<noteq> [] \<longrightarrow>
        error (Monitor_result config startTime endTime now (Inl message)) = Some message)
   \<and> (fault db = None \<longrightarrow>
        (\<exists>db'. Monitor_checkURL config startTime endTime now (Inl message) db = Inr db'
           \<and> rows db' = rows db @ [last (rows db')]
           \<and> row_status (last (rows db')) = 0
           \<and> row_success (last (rows db')) = 0
           \<and> row_error (last (rows db')) = Some (if message = [] then ''Request failed'' else message)))
   \<and> (\<forall>e. Monitor_checkURL config startTime endTime now (Inl message) db = Inl e \<longrightarrow>
        (\<exists>s. fault db = Some s \<and> e = StorageError s))
   \<and> UrlMonitor_try urlConfig startTime endTime now (Inl message) = Inl message
   \<and> fst (UrlMonitor_checkUrl urlConfig startTime endTime now (Inl message) m) =
       UrlMonitor_result urlConfig startTime endTime now (Inl message)
   \<and> u_status (UrlMonitor_result urlConfig startTime endTime now (Inl message)) = 0
   \<and> u_success (UrlMonitor_result urlConfig startTime endTime now (Inl message)) = False
   \<and> u_error (UrlMonitor_result urlConfig startTime endTime now (Inl message)) = Some message
   \<and> (save_fault (um_database m) = None \<longrightarrow>
        saved (um_database (snd (UrlMonitor_checkUrl urlConfig startTime endTime now (Inl message) m))) =
          saved (um_database m) @
            [(UrlMonitor_result urlConfig startTime endTime now (Inl message))
               \<lparr>u_id := Some (saved_seq (um_database m) + 1)\<rparr>])"
proof -
  have m1: "Monitor_try config startTime endTime now (Inl message) = Inl message"
    by (simp add: Monitor_try_def)
  have m2: "status (Monitor_result config startTime endTime now (Inl message)) = 0"
    "success (Monitor_result config startTime endTime now (Inl message)) = False"
    "error (Monitor_result config startTime endTime now (Inl message)) =
       Some (if message = [] then ''Request failed'' else message)"
    by (simp_all add: Monitor_result_thrown Monitor_catch_def)
  have m2b: "message \<noteq> [] \<longrightarrow>
        error (Monitor_result config startTime endTime now (Inl message)) = Some message"
    by (simp add: Monitor_result_thrown Monitor_catch_def)
  have m3: "fault db = None \<longrightarrow>
        (\<exists>db'. Monitor_checkURL config startTime endTime now (Inl message) db = Inr db'
           \<and> rows db' = rows db @ [last (rows db')]
           \<and> row_status (last (rows db')) = 0
           \<and> row_success (last (rows db')) = 0
           \<and> row_error (last (rows db')) = Some (if message = [] then ''Request failed'' else message))"
    by (simp add: Monitor_checkURL_def insertResult_ok Monitor_result_thrown Monitor_catch_def truthy_def)
  have m4: "\<forall>e. Monitor_checkURL config startTime endTime now (Inl message) db = Inl e \<longrightarrow>
        (\<exists>s. fault db = Some s \<and> e = StorageError s)"
    by (simp add: Monitor_checkURL_def insertResult_error)
  have u1: "UrlMonitor_try urlConfig startTime endTime now (Inl message) = Inl message"
    by (simp add: UrlMonitor_try_def)
  have u2: "u_status (UrlMonitor_result urlConfig startTime endTime now (Inl message)) = 0"
    "u_success (UrlMonitor_result urlConfig startTime endTime now (Inl message)) = False"
    "u_error (UrlMonitor_result urlConfig startTime endTime now (Inl message)) = Some message"
    by (simp_all add: UrlMonitor_result_thrown UrlMonitor_catch_def)
  have u3: "save_fault (um_database m) = None \<longrightarrow>
        saved (um_database (snd (UrlMonitor_checkUrl urlConfig startTime endTime now (Inl message) m))) =
          saved (um_database m) @
            [(UrlMonitor_result urlConfig startTime endTime now (Inl message))
               \<lparr>u_id := Some (saved_seq (um_database m) + 1)\<rparr>]"
    by (simp add: UrlMonitor_checkUrl_def saveResult_def Let_def split_beta)
  show ?thesis
    by (intro conjI m1 m2 m2b m3 m4 u1 u2 u3 fst_UrlMonitor_checkUrl)
qed

theorem transport_failure_recorded_witness:
  "''fetch failed'' \<noteq> []
   \<and> error (Monitor_result
        \<lparr>cfg_url = ''https://github.com'', cfg_name = ''GitHub'', cfg_countryCode = None,
         cfg_group_name = None, cfg_interval = Some 120000\<rparr> 1000 1250 1250 (Inl ''fetch failed''))
      = Some ''fetch failed''
   \<and> fault \<lparr>rows = [], seq = 0, fault = None\<rparr> = None
   \<and> (\<exists>db'. Monitor_checkURL
        \<lparr>cfg_url = ''https://github.com'', cfg_name = ''GitHub'', cfg_countryCode = None,
         cfg_group_name = None, cfg_interval = Some 120000\<rparr> 1000 1250 1250 (Inl ''fetch failed'')
        \<lparr>rows = [], seq = 0, fault = None\<rparr> = Inr db'
        \<and> row_status (last (rows db')) = 0 \<and> row_success (last (rows db')) = 0
        \<and> row_error (last (rows db')) = Some ''fetch failed'')
   \<and> save_fault (um_database new_UrlMonitor) = None
   \<and> saved (um_database (snd (UrlMonitor_checkUrl
        \<lparr>uc_url = ''https://github.com'', uc_name = ''GitHub'', uc_interval = 120000,
         uc_countryCode = None, uc_group = None\<rparr> 1000 1250 1250 (Inl ''fetch failed'')
        new_UrlMonitor))) =
      [\<lparr>u_id = Some 1, u_url = ''https://github.com'', u_name = ''GitHub'', u_group = None,
        u_timestamp = 1250, u_status = 0, u_responseTime = 250, u_success = False,
        u_error = Some ''fetch failed''\<rparr>]"
proof -
  let ?config = "\<lparr>cfg_url = ''https://github.com'', cfg_name = ''GitHub'', cfg_countryCode = None,
          cfg_group_name = None, cfg_interval = Some 120000\<rparr>"
  let ?urlConfig = "\<lparr>uc_url = ''https://github.com'', uc_name = ''GitHub'', uc_interval = 120000,
          uc_countryCode = None, uc_group = None\<rparr>"
  let ?db = "\<lparr>rows = [], seq = 0, fault = None\<rparr>"
  note fact = transport_failure_recorded
    [where config = ?config and startTime = 1000 and endTime = 1250 and now = 1250
       and message = "''fetch failed''" and db = ?db and urlConfig = ?urlConfig
       and m = new_UrlMonitor]
  have h1: "''fetch failed'' \<noteq> []" by simp
  have h2: "fault ?db = None" by simp
  have h3: "save_fault (um_database new_UrlMonitor) = None" by (simp add: new_UrlMonitor_def)
  from fact h1 have c1: "error (Monitor_result ?config 1000 1250 1250 (Inl ''fetch failed''))
      = Some ''fetch failed''" by blast
  from fact h2 have "\<exists>db'. Monitor_checkURL ?config 1000 1250 1250 (Inl ''fetch failed'') ?db = Inr db'
           \<and> rows db' = rows ?db @ [last (rows db')]
           \<and> row_status (last (rows db')) = 0
           \<and> row_success (last (rows db')) = 0
           \<and> row_error (last (rows db')) = Some (if ''fetch failed'' = [] then ''Request failed'' else ''fetch failed'')"
    by blast
  then have c2: "\<exists>db'. Monitor_checkURL ?config 1000 1250 1250 (Inl ''fetch failed'') ?db = Inr db'
        \<and> row_status (last (rows db')) = 0 \<and> row_success (last (rows db')) = 0
        \<and> row_error (last (rows db')) = Some ''fetch failed''"
    by auto
  from fact h3 have "saved (um_database (snd (UrlMonitor_checkUrl ?urlConfig 1000 1250 1250
        (Inl ''fetch failed'') new_UrlMonitor))) =
      saved (um_database new_UrlMonitor) @
        [(UrlMonitor_result ?urlConfig 1000 1250 1250 (Inl ''fetch failed''))
           \<lparr>u_id := Some (saved_seq (um_database new_UrlMonitor) + 1)\<rparr>]"
    by blast
  then have c3: "saved (um_database (snd (UrlMonitor_checkUrl ?urlConfig 1000 1250 1250
        (Inl ''fetch failed'') new_UrlMonitor))) =
      [\<lparr>u_id = Some 1, u_url = ''https://github.com'', u_name = ''GitHub'', u_group = None,
        u_timestamp = 1250, u_status = 0, u_responseTime = 250, u_success = False,
        u_error = Some ''fetch failed''\<rparr>]"
    by (simp add: new_UrlMonitor_def UrlMonitor_result_thrown UrlMonitor_catch_def)
  from h1 c1 h2 c2 h3 c3 show ?thesis by blast
qed

text \<open>
  C7 (amended). A result of \<open>Monitor.checkURL\<close> has an error message if and only if
  its success flag is false. A result of \<open>UrlMonitor.checkUrl\<close> has an error message
  if and only if the request failed at the transport level; there an error message implies
  success = false, but a received response never carries one.
\<close>

theorem error_presence_by_variant:
  "(error (Monitor_result config startTime endTime now outcome) \<noteq> None
      \<longleftrightarrow> \<not> success (Monitor_result config startTime endTime now outcome))
   \<and> (u_error (UrlMonitor_result urlConfig startTime endTime now outcome) \<noteq> None
      \<longleftrightarrow> (\<exists>message. outcome = Inl message))
   \<and> (u_error (UrlMonitor_result urlConfig startTime endTime now outcome) \<noteq> None
      \<longrightarrow> \<not> u_success (UrlMonitor_result urlConfig startTime endTime now outcome))"
  by (cases outcome)
    (simp_all add: Monitor_result_response Monitor_result_thrown Monitor_catch_def
      UrlMonitor_result_response UrlMonitor_result_thrown UrlMonitor_catch_def)

theorem error_presence_by_variant_witness:
  "u_error (UrlMonitor_result
      \<lparr>uc_url = ''https://github.com'', uc_name = ''GitHub'', uc_interval = 120000,
       uc_countryCode = None, uc_group = None\<rparr> 1000 1250 1250 (Inl ''timeout of 10000ms exceeded''))
     \<noteq> None
   \<and> \<not> u_success (UrlMonitor_result
      \<lparr>uc_url = ''https://github.com'', uc_name = ''GitHub'', uc_interval = 120000,
       uc_countryCode = None, uc_group = None\<rparr> 1000 1250 1250 (Inl ''timeout of 10000ms exceeded''))"
proof -
  let ?r = "UrlMonitor_result
      \<lparr>uc_url = ''https://github.com'', uc_name = ''GitHub'', uc_interval = 120000,
       uc_countryCode = None, uc_group = None\<rparr> 1000 1250 1250 (Inl ''timeout of 10000ms exceeded'')"
  have present: "u_error ?r \<noteq> None"
    by (simp add: UrlMonitor_result_thrown UrlMonitor_catch_def)
  from error_presence_by_variant
    [where urlConfig = "\<lparr>uc_url = ''https://github.com'', uc_name = ''GitHub'', uc_interval = 120000,
       uc_countryCode = None, uc_group = None\<rparr>" and startTime = 1000 and endTime = 1250
       and now = 1250 and outcome = "Inl ''timeout of 10000ms exceeded''"]
    present
  show ?thesis by blast
qed

text \<open>
  The claim as stated fails for \<open>UrlMonitor.checkUrl\<close>: a response with status 404
  is recorded with success = false and no error message.
\<close>

theorem error_presence_counterexample:
  "u_success (UrlMonitor_result
      \<lparr>uc_url = ''https://github.com'', uc_name = ''GitHub'', uc_interval = 120000,
       uc_countryCode = None, uc_group = None\<rparr> 1000 1250 1250 (Inr 404)) = False
   \<and> u_error (UrlMonitor_result
      \<lparr>uc_url = ''https://github.com'', uc_name = ''GitHub'', uc_interval = 120000,
       uc_countryCode = None, uc_group = None\<rparr> 1000 1250 1250 (Inr 404)) = None"
  by (simp add: UrlMonitor_result_response)

section \<open>Properties of the schedulers\<close>

lemma fold_scheduleURL_armed:
  "map (fst \<circ> snd) (armed (fold scheduleURL targets m)) = map (fst \<circ> snd) (armed m) @ targets"
  by (induction targets arbitrary: m) (simp_all add: scheduleURL_def Let_def)

lemma fold_scheduleURL_isRunning:
  "isRunning (fold scheduleURL targets m) = isRunning m"
  by (induction targets arbitrary: m) (simp_all add: scheduleURL_def Let_def)

text \<open>
  C3 (amended). For every \<open>Monitor\<close> in the running state, \<open>start\<close> signals the
  already-running error and leaves the whole state, with the timer registry and the armed
  timers, unchanged: after a first \<open>start\<close> of a new \<open>Monitor\<close> and a second
  attempt there is exactly one armed timer per target. \<open>UrlMonitor.startMonitoring\<close>
  has no running state and no guard: every call arms one more shared timer and files its
  handle under the one registry key \<open>'main'\<close>, in the place of the previous handle.
\<close>

theorem start_guard_by_variant:
  "(isRunning m \<longrightarrow> Monitor_start others m = (Inl AlreadyRunning, m))
   \<and> fst (Monitor_start targets new_Monitor) = Inr ()
   \<and> isRunning (snd (Monitor_start targets new_Monitor))
   \<and> map (fst \<circ> snd) (armed (snd (Monitor_start targets new_Monitor))) = targets
   \<and> Monitor_start others (snd (Monitor_start targets new_Monitor)) =
       (Inl AlreadyRunning, snd (Monitor_start targets new_Monitor))
   \<and> um_armed (startMonitoring config um) = um_armed um @ [(um_next_handle um, defaultInterval config)]
   \<and> um_intervals (startMonitoring config um) = (um_intervals um)(''main'' \<mapsto> um_next_handle um)
   \<and> dom (um_intervals (startMonitoring config (startMonitoring config um))) =
       dom (um_intervals (startMonitoring config um))
   \<and> length (um_armed (startMonitoring config (startMonitoring config um))) =
       length (um_armed (startMonitoring config um)) + 1"
  by (simp add: Monitor_start_def new_Monitor_def fold_scheduleURL_armed
      fold_scheduleURL_isRunning startMonitoring_def Let_def)

theorem start_guard_by_variant_witness:
  "isRunning (snd (Monitor_start
      [\<lparr>cfg_url = ''https://github.com'', cfg_name = ''GitHub'', cfg_countryCode = None,
        cfg_group_name = None, cfg_interval = Some 120000\<rparr>] new_Monitor))
   \<and> Monitor_start []
       (snd (Monitor_start
         [\<lparr>cfg_url = ''https://github.com'', cfg_name = ''GitHub'', cfg_countryCode = None,
           cfg_group_name = None, cfg_interval = Some 120000\<rparr>] new_Monitor)) =
     (Inl AlreadyRunning,
       snd (Monitor_start
         [\<lparr>cfg_url = ''https://github.com'', cfg_name = ''GitHub'', cfg_countryCode = None,
           cfg_group_name = None, cfg_interval = Some 120000\<rparr>] new_Monitor))"
proof -
  let ?m = "snd (Monitor_start
      [\<lparr>cfg_url = ''https://github.com'', cfg_name = ''GitHub'', cfg_countryCode = None,
        cfg_group_name = None, cfg_interval = Some 120000\<rparr>] new_Monitor)"
  have run: "isRunning ?m"
    by (simp add: Monitor_start_def new_Monitor_def scheduleURL_def Let_def)
  from start_guard_by_variant [of ?m "[]"] run show ?thesis by blast
qed

text \<open>
  The claim as stated fails for \<open>UrlMonitor.startMonitoring\<close>: a second call on a
  monitor with one target raises nothing, leaves two timers armed and changes the registry
  entry from handle 0 to handle 1.
\<close>

theorem start_guard_counterexample:
  "um_armed (startMonitoring
       \<lparr>urls = [\<lparr>uc_url = ''https://github.com'', uc_name = ''GitHub'', uc_interval = 120000,
                 uc_countryCode = None, uc_group = None\<rparr>],
        defaultInterval = 60000, retryAttempts = 3, timeout = 10000\<rparr>
     (startMonitoring
       \<lparr>urls = [\<lparr>uc_url = ''https://github.com'', uc_name = ''GitHub'', uc_interval = 120000,
                 uc_countryCode = None, uc_group = None\<rparr>],
        defaultInterval = 60000, retryAttempts = 3, timeout = 10000\<rparr> new_UrlMonitor))
     = [(0, 60000), (1, 60000)]
   \<and> um_intervals (startMonitoring
       \<lparr>urls = [\<lparr>uc_url = ''https://github.com'', uc_name = ''GitHub'', uc_interval = 120000,
                 uc_countryCode = None, uc_group = None\<rparr>],
        defaultInterval = 60000, retryAttempts = 3, timeout = 10000\<rparr>
     (startMonitoring
       \<lparr>urls = [\<lparr>uc_url = ''https://github.com'', uc_name = ''GitHub'', uc_interval = 120000,
                 uc_countryCode = None, uc_group = None\<rparr>],
        defaultInterval = 60000, retryAttempts = 3, timeout = 10000\<rparr> new_UrlMonitor)) ''main''
     = Some 1
   \<and> um_intervals (startMonitoring
       \<lparr>urls = [\<lparr>uc_url = ''https://github.com'', uc_name = ''GitHub'', uc_interval = 120000,
                 uc_countryCode = None, uc_group = None\<rparr>],
        defaultInterval = 60000, retryAttempts = 3, timeout = 10000\<rparr> new_UrlMonitor) ''main''
     = Some 0"
  by (simp add: startMonitoring_def new_UrlMonitor_def Let_def)

section \<open>Properties of the result store\<close>

lemma run_sql_ok: "fault db = None \<Longrightarrow> run_sql db x = Inr x"
  by (simp add: run_sql_def)

lemma stat_key_stats_of_group [simp]: "stat_key (stats_of_group table k grp) = k"
  by (simp add: stat_key_def stats_of_group_def Let_def)






lemma datetime_less_iff: "datetime ts < c \<longleftrightarrow> ts < c * 1000"
proof -
  define q where "q = ts div 1000"
  define m where "m = ts mod 1000"
  have "ts = 1000 * q + m" by (simp add: q_def m_def)
  moreover have "0 \<le> m" "m < 1000" by (simp_all add: m_def)
  ultimately have "q < c \<longleftrightarrow> ts < c * 1000" by linarith
  then show ?thesis by (simp add: datetime_def q_def)
qed

text \<open>
  C5. For every cutoff of a non-negative number of days, \<open>cleanup\<close> deletes exactly
  the rows whose time stamp is strictly older than the cutoff instant and returns their
  number; rows exactly at the cutoff and all younger rows are kept, unchanged. The cutoff
  instant is \<open>datetime('now', '-N days')\<close>, which SQLite renders in whole seconds.
\<close>

theorem cleanup_deletes_older:
  assumes "fault db = None"
  shows "\<exists>n db'. cleanup now olderThanDays db = Inr (n, db')
    \<and> rows db' = filter (\<lambda>r. ((now - int olderThanDays * 86400000) div 1000) * 1000 \<le> row_timestamp r) (rows db)
    \<and> n = length (filter (\<lambda>r. row_timestamp r < ((now - int olderThanDays * 86400000) div 1000) * 1000) (rows db))
    \<and> n + length (rows db') = length (rows db)
    \<and> seq db' = seq db"
proof -
  define cut where "cut = ((now - int olderThanDays * 86400000) div 1000) * 1000"
  have doomed: "datetime (row_timestamp r) < cleanup_cutoff now olderThanDays \<longleftrightarrow> row_timestamp r < cut" for r :: requests_row
    unfolding cut_def cleanup_cutoff_def by (simp only: datetime_less_iff) (simp add: datetime_def)
  have kept: "(\<not> row_timestamp r < cut) = (cut \<le> row_timestamp r)" for r :: requests_row
    by auto
  have split: "length (filter (\<lambda>r. row_timestamp r < cut) (rows db))
      + length (filter (\<lambda>r. cut \<le> row_timestamp r) (rows db)) = length (rows db)"
    using sum_length_filter_compl [of "\<lambda>r. row_timestamp r < cut" "rows db"]
    by (simp only: kept)
  have "cleanup now olderThanDays db =
      Inr (length (filter (\<lambda>r. row_timestamp r < cut) (rows db)),
           db\<lparr>rows := filter (\<lambda>r. cut \<le> row_timestamp r) (rows db)\<rparr>)"
    using assms by (simp add: cleanup_def run_sql_ok Let_def doomed kept)
  with split show ?thesis unfolding cut_def by simp
qed

theorem cleanup_deletes_older_witness:
  "fault \<lparr>rows = [synthetic_row 1 4999 120 True, synthetic_row 2 5000 80 True,
                  synthetic_row 3 5400 3000 False], seq = 3, fault = None\<rparr> = None
   \<and> (\<exists>n db'. cleanup 2592005500 30
          \<lparr>rows = [synthetic_row 1 4999 120 True, synthetic_row 2 5000 80 True,
                   synthetic_row 3 5400 3000 False], seq = 3, fault = None\<rparr> = Inr (n, db')
        \<and> n = 1
        \<and> rows db' = [synthetic_row 2 5000 80 True, synthetic_row 3 5400 3000 False])"
proof -
  let ?db = "\<lparr>rows = [synthetic_row 1 4999 120 True, synthetic_row 2 5000 80 True,
                  synthetic_row 3 5400 3000 False], seq = 3, fault = None\<rparr>"
  have h: "fault ?db = None" by simp
  from cleanup_deletes_older [OF h, of 2592005500 30]
  obtain n db' where c: "cleanup 2592005500 30 ?db = Inr (n, db')"
    and r: "rows db' = filter (\<lambda>r. ((2592005500 - int 30 * 86400000) div 1000) * 1000 \<le> row_timestamp r) (rows ?db)"
    and n: "n = length (filter (\<lambda>r. row_timestamp r < ((2592005500 - int 30 * 86400000) div 1000) * 1000) (rows ?db))"
    by (elim exE conjE) (rule that)
  from n have n1: "n = 1" by (simp add: synthetic_row_def)
  from r have r1: "rows db' = [synthetic_row 2 5000 80 True, synthetic_row 3 5400 3000 False]"
    by (simp add: synthetic_row_def)
  from c n1 r1 have "\<exists>n db'. cleanup 2592005500 30 ?db = Inr (n, db') \<and> n = 1
        \<and> rows db' = [synthetic_row 2 5000 80 True, synthetic_row 3 5400 3000 False]"
    by (intro exI conjI)
  with h show ?thesis by (rule conjI)
qed

lemma truthy_id: "x \<noteq> Some [] \<Longrightarrow> truthy x = x"
  by (auto simp: truthy_def split: option.splits)

lemma truthy_truthy: "truthy (truthy x) = truthy x"
  by (auto simp: truthy_def split: option.splits)

lemma newest_first:
  "sorted_wrt (\<lambda>a b. timestamp a \<ge> timestamp b)
     (map row_result (sort_key (\<lambda>r. - row_timestamp r) xs))"
proof -
  have "sorted (map (\<lambda>r. - row_timestamp r) (sort_key (\<lambda>r. - row_timestamp r) xs))"
    by (rule sorted_sort_key)
  then have "sorted_wrt (\<lambda>a b. row_timestamp b \<le> row_timestamp a) (sort_key (\<lambda>r. - row_timestamp r) xs)"
    by (simp add: sorted_map)
  then show ?thesis by (simp add: sorted_wrt_map row_result_def)
qed

text \<open>
  C9 (amended). For every result \<open>r\<close>, inserting \<open>r\<close> and then calling
  \<open>getResults\<close> with a time range that covers its time stamp (and no group filter,
  or the filter of its group) returns a record equal to \<open>r\<close> in url, name, time
  stamp, status, response time and success flag, and in country code, group and error up
  to the replacement of an empty string by an absent value; so it is equal to \<open>r\<close>
  in all fields, the generated id apart, whenever the country code, group and error of
  \<open>r\<close> are absent or non-empty. The returned rows are ordered newest first.
\<close>

theorem insert_then_query_roundtrip:
  assumes ok: "fault db = None"
    and covers: "since = Some s" "s \<le> timestamp r div 1000"
    and grp: "truthy groupName = None \<or> truthy groupName = truthy (group_name r)"
  shows "\<exists>db' res x. insertResult db r = Inr db' \<and> getResults since groupName db' = Inr res
     \<and> x \<in> set res
     \<and> x = r\<lparr>id_field := Some (seq db + 1), countryCode := truthy (countryCode r),
              group_name := truthy (group_name r), error := truthy (error r)\<rparr>
     \<and> (countryCode r \<noteq> Some [] \<and> group_name r \<noteq> Some [] \<and> error r \<noteq> Some []
          \<longrightarrow> x\<lparr>id_field := id_field r\<rparr> = r)
     \<and> sorted_wrt (\<lambda>a b. timestamp a \<ge> timestamp b) res"
proof -
  define new where "new =
     \<lparr>row_id = seq db + 1, row_url = url r, row_name = name r,
      row_countryCode = truthy (countryCode r), row_group_name = truthy (group_name r),
      row_timestamp = timestamp r, row_status = status r, row_responseTime = responseTime r,
      row_success = (if success r then 1 else 0), row_error = truthy (error r)\<rparr>"
  define db' where "db' = db\<lparr>rows := rows db @ [new], seq := seq db + 1\<rparr>"
  define res where "res = map row_result (sort_key (\<lambda>r. - row_timestamp r)
             (filter (\<lambda>r. in_range since r \<and> group_matches groupName r) (rows db')))"
  define x where "x = r\<lparr>id_field := Some (seq db + 1), countryCode := truthy (countryCode r),
              group_name := truthy (group_name r), error := truthy (error r)\<rparr>"
  have ins: "insertResult db r = Inr db'"
    using ok by (simp add: insertResult_ok db'_def new_def)
  have "fault db' = None" using ok by (simp add: db'_def)
  then have get: "getResults since groupName db' = Inr res"
    by (simp add: getResults_def run_sql_ok res_def)
  have sel: "in_range since new \<and> group_matches groupName new"
    using covers grp
    by (auto simp add: in_range_def group_matches_def new_def datetime_def truthy_truthy
        split: option.splits)
  have "new \<in> set (rows db')" by (simp add: db'_def)
  with sel have "row_result new \<in> set res" by (simp add: res_def)
  moreover have "row_result new = x"
    by (simp add: row_result_def new_def x_def)
  ultimately have mem: "x \<in> set res" by simp
  have eq: "countryCode r \<noteq> Some [] \<and> group_name r \<noteq> Some [] \<and> error r \<noteq> Some []
          \<longrightarrow> x\<lparr>id_field := id_field r\<rparr> = r"
    by (simp add: x_def truthy_id)
  have srt: "sorted_wrt (\<lambda>a b. timestamp a \<ge> timestamp b) res"
    unfolding res_def by (rule newest_first)
  from ins get mem eq srt show ?thesis unfolding x_def by blast
qed

theorem insert_then_query_roundtrip_witness:
  "fault synthetic_db = None
   \<and> 600 \<le> timestamp \<lparr>id_field = None, url = ''https://httpbin.org/status/200'',
          name = ''HTTPBin Success'', countryCode = Some ''US'', group_name = Some ''Tools'',
          timestamp = 660000, status = 200, responseTime = 42, success = True, error = None\<rparr> div 1000
   \<and> (\<exists>db' res x. insertResult synthetic_db
          \<lparr>id_field = None, url = ''https://httpbin.org/status/200'',
           name = ''HTTPBin Success'', countryCode = Some ''US'', group_name = Some ''Tools'',
           timestamp = 660000, status = 200, responseTime = 42, success = True, error = None\<rparr> = Inr db'
        \<and> getResults (Some 600) (Some ''Tools'') db' = Inr res
        \<and> x \<in> set res
        \<and> x\<lparr>id_field := None\<rparr> =
            \<lparr>id_field = None, url = ''https://httpbin.org/status/200'',
             name = ''HTTPBin Success'', countryCode = Some ''US'', group_name = Some ''Tools'',
             timestamp = 660000, status = 200, responseTime = 42, success = True, error = None\<rparr>
        \<and> sorted_wrt (\<lambda>a b. timestamp a \<ge> timestamp b) res)"
proof -
  let ?r = "\<lparr>id_field = None, url = ''https://httpbin.org/status/200'',
          name = ''HTTPBin Success'', countryCode = Some ''US'', group_name = Some ''Tools'',
          timestamp = 660000, status = 200, responseTime = 42, success = True, error = None\<rparr>"
  have h: "fault synthetic_db = None" by (simp add: synthetic_db_def)
  have c: "600 \<le> timestamp ?r div 1000" by simp
  have g: "truthy (Some ''Tools'') = None \<or> truthy (Some ''Tools'') = truthy (group_name ?r)"
    by simp
  have ne: "countryCode ?r \<noteq> Some [] \<and> group_name ?r \<noteq> Some [] \<and> error ?r \<noteq> Some []"
    by simp
  from insert_then_query_roundtrip [OF h refl c g]
  obtain db' res x where ins: "insertResult synthetic_db ?r = Inr db'"
    and get: "getResults (Some 600) (Some ''Tools'') db' = Inr res"
    and mem: "x \<in> set res"
    and eq: "countryCode ?r \<noteq> Some [] \<and> group_name ?r \<noteq> Some [] \<and> error ?r \<noteq> Some []
          \<longrightarrow> x\<lparr>id_field := id_field ?r\<rparr> = ?r"
    and srt: "sorted_wrt (\<lambda>a b. timestamp a \<ge> timestamp b) res"
    by (elim exE conjE) (rule that)
  from eq ne have "x\<lparr>id_field := None\<rparr> = ?r" by simp
  with ins get mem srt have "\<exists>db' res x. insertResult synthetic_db ?r = Inr db'
        \<and> getResults (Some 600) (Some ''Tools'') db' = Inr res
        \<and> x \<in> set res \<and> x\<lparr>id_field := None\<rparr> = ?r
        \<and> sorted_wrt (\<lambda>a b. timestamp a \<ge> timestamp b) res"
    by (intro exI conjI)
  with h c show ?thesis by (intro conjI)
qed

text \<open>
  The claim as stated fails for a result whose country code is the empty string (a target
  of the JSON configuration with \<open>"countryCode": ""\<close>): it is stored as \<open>NULL\<close>
  and returned without a country code.
\<close>

theorem insert_then_query_counterexample:
  "insertResult empty_db
      \<lparr>id_field = None, url = ''https://github.com'', name = ''GitHub'',
       countryCode = Some '''', group_name = None, timestamp = 660000, status = 200,
       responseTime = 42, success = True, error = None\<rparr>
     = Inr \<lparr>rows = [\<lparr>row_id = 1, row_url = ''https://github.com'', row_name = ''GitHub'',
                     row_countryCode = None, row_group_name = None, row_timestamp = 660000,
                     row_status = 200, row_responseTime = 42, row_success = 1,
                     row_error = None\<rparr>],
            seq = 1, fault = None\<rparr>
   \<and> getResults (Some 600) None
        \<lparr>rows = [\<lparr>row_id = 1, row_url = ''https://github.com'', row_name = ''GitHub'',
                  row_countryCode = None, row_group_name = None, row_timestamp = 660000,
                  row_status = 200, row_responseTime = 42, row_success = 1,
                  row_error = None\<rparr>],
         seq = 1, fault = None\<rparr>
     = Inr [\<lparr>id_field = Some 1, url = ''https://github.com'', name = ''GitHub'',
             countryCode = None, group_name = None, timestamp = 660000, status = 200,
             responseTime = 42, success = True, error = None\<rparr>]"
  by (simp add: insertResult_def getResults_def run_sql_def empty_db_def truthy_def
      in_range_def datetime_def group_matches_def row_result_def)

section \<open>Properties of the group hierarchy\<close>



lemma fst_bump_urls [simp]: "fst (bump_urls key u n p) = fst p"
  by (simp add: bump_urls_def)

lemma labels_bump_urls [simp]:
  "gh_group_name (snd (bump_urls key u n p)) = gh_group_name (snd p)"
  "gh_countryCode (snd (bump_urls key u n p)) = gh_countryCode (snd p)"
  by (simp_all add: bump_urls_def)

























lemma set_Object_entries [simp]: "set (Object_entries obj) = set obj"
  by (auto simp add: Object_entries_def)










end
